theory Spec2Isabelle
  imports Complex_Main "HOL-Library.AList"
begin

section \<open>Data model\<close>

text \<open>
  The scoring server reads wallet batches (nested dictionaries), flattens the DEX
  transactions into a table of rows, derives liquidity and swap features, and combines
  them into a weighted score.

  Numbers: the amounts and scores of the source are Python and NumPy floats and integers.
  A float is modelled by an exact real, so rounding, overflow of the float range, NaN and
  infinities are outside the model. An integer is modelled by an integer: Python's own
  integers are unbounded, and a sum that NumPy takes in 64 bits wraps around. A value of
  a dictionary keeps the distinction between Python's own numbers and NumPy's, which is
  what \<open>_sanitize_features\<close> removes.
\<close>

datatype pyval = PyInt int | PyFloat real | NpInt int | NpFloat real

fun num :: "pyval \<Rightarrow> real" where
  "num (PyInt i) = real_of_int i"
| "num (PyFloat x) = x"
| "num (NpInt i) = real_of_int i"
| "num (NpFloat x) = x"

definition truediv :: "pyval \<Rightarrow> pyval \<Rightarrow> pyval" where
  \<comment> \<open>\<open>a / b\<close> for \<open>b\<close> other than 0: a NumPy float when an operand is a NumPy number,
      a Python float otherwise\<close>
  "truediv a b =
     (case (a, b) of
        (PyInt _, PyInt _) \<Rightarrow> PyFloat (num a / num b)
      | (PyInt _, PyFloat _) \<Rightarrow> PyFloat (num a / num b)
      | (PyFloat _, PyInt _) \<Rightarrow> PyFloat (num a / num b)
      | (PyFloat _, PyFloat _) \<Rightarrow> PyFloat (num a / num b)
      | _ \<Rightarrow> NpFloat (num a / num b))"

text \<open>
  An amount in USD as the batch gives it: a JSON integer (a Python \<open>int\<close>) or a JSON
  number with a fraction (a \<open>float\<close>). \<open>max\<close> gives back one of its arguments, the
  first when none is greater; \<open>+\<close> of two integers is an integer.
\<close>

datatype amount = IntAmount int | FloatAmount real

fun amount_value :: "amount \<Rightarrow> real" where
  "amount_value (IntAmount i) = real_of_int i"
| "amount_value (FloatAmount x) = x"

definition py_max :: "amount \<Rightarrow> amount \<Rightarrow> amount" where
  "py_max a b = (if amount_value a < amount_value b then b else a)"

fun py_add :: "amount \<Rightarrow> amount \<Rightarrow> amount" where
  "py_add (IntAmount i) (IntAmount j) = IntAmount (i + j)"
| "py_add a b = FloatAmount (amount_value a + amount_value b)"

text \<open>The exceptions the scoring code raises, and their \<open>str()\<close>.\<close>

datatype error = ValueError string | KeyError string

fun str :: "error \<Rightarrow> string" where
  "str (ValueError m) = m"
| "str (KeyError k) = [CHR 0x27] @ k @ [CHR 0x27]"

text \<open>
  A dictionary with string keys, in insertion order. \<open>d[k] = v\<close> is
  \<^const>\<open>AList.update\<close>: it replaces the value of a key in place and appends a new key.
\<close>

type_synonym dict = "(string \<times> pyval) list"

definition get :: "dict \<Rightarrow> string \<Rightarrow> pyval \<Rightarrow> pyval" where
  "get d k dflt = (case map_of d k of None \<Rightarrow> dflt | Some v \<Rightarrow> v)"

definition merge :: "dict \<Rightarrow> dict \<Rightarrow> dict" where
  \<comment> \<open>\<open>{**a, **b}\<close>\<close>
  "merge a b = foldl (\<lambda>d kv. AList.update (fst kv) (snd kv) d) a b"

subsection \<open>The input batch\<close>

text \<open>
  The batch is a dictionary read with \<open>.get\<close>, so every key may be absent
  (\<open>None\<close>). The lists \<open>data\<close> and \<open>transactions\<close> default to the empty list.
\<close>

record token =
  amountUSD :: "amount option"
  symbol :: "string option"

record transaction =
  document_id :: "string option"
  action :: "string option"
  timestamp :: "int option"
  protocol :: "string option"
  poolId :: "string option"
  poolName :: "string option"
  tokenIn :: "token option"
  tokenOut :: "token option"
  token0 :: "token option"
  token1 :: "token option"

record protocol_data =
  protocolType :: "string option"
  transactions :: "transaction list"

record wallet_data =
  wallet_address :: "string option"
  data :: "protocol_data list"

subsection \<open>The table of rows\<close>

text \<open>
  A row of the DataFrame. A cell is \<open>None\<close> where the row dictionary had no such key
  or the value \<open>None\<close> (pandas shows NaN or None there). The timestamp of a row
  that is kept has been parsed, so it is an integer.
\<close>

record row =
  r_wallet_address :: string
  r_document_id :: "string option"
  r_action :: "string option"
  r_timestamp :: int
  r_protocol :: "string option"
  r_pool_id :: "string option"
  r_pool_name :: "string option"
  r_amount_usd :: "amount option"
  r_token_in_symbol :: "string option"
  r_token_out_symbol :: "string option"
  r_token0_symbol :: "string option"
  r_token1_symbol :: "string option"

text \<open>
  The type pandas gives the \<open>amount_usd\<close> column when it builds the DataFrame from the
  row dictionaries, from all the cells of the column (\<open>None\<close> is the cell of a row
  without the key, which pandas fills with NaN): Python objects when an integer does not
  fit 64 bits, or when one integer needs the unsigned range and another is negative;
  otherwise floats when a cell is a float or is missing; otherwise unsigned 64-bit integers
  when an integer is above the signed range; otherwise signed 64-bit integers.
\<close>

datatype dtype = float64 | int64 | uint64 | object

definition int_cells :: "amount option list \<Rightarrow> int list" where
  "int_cells cells =
     List.map_filter (\<lambda>c. case c of Some (IntAmount i) \<Rightarrow> Some i | _ \<Rightarrow> None) cells"

definition amount_dtype :: "amount option list \<Rightarrow> dtype" where
  "amount_dtype cells =
     (let ints = int_cells cells
      in if (\<exists>i \<in> set ints. 18446744073709551615 < i \<or> i < - 9223372036854775808) \<or>
            ((\<exists>i \<in> set ints. 9223372036854775807 < i) \<and> (\<exists>i \<in> set ints. i < 0))
           then object
         else if \<exists>c \<in> set cells. case c of Some (IntAmount _) \<Rightarrow> False | _ \<Rightarrow> True
           then float64
         else if \<exists>i \<in> set ints. 9223372036854775807 < i then uint64
         else int64)"

text \<open>
  A DataFrame: its rows, its column names and the type of its \<open>amount_usd\<close> column.
  The columns of \<open>pd.DataFrame(rows)\<close> are the keys of all the row dictionaries
  together, and reading a column that does not exist raises \<open>KeyError\<close>.
\<close>

record dataframe =
  df_rows :: "row list"
  df_columns :: "string set"
  df_amount_dtype :: dtype

definition df_empty :: "dataframe \<Rightarrow> bool" where
  \<comment> \<open>\<open>df.empty\<close>: an axis of length 0 (\<open>empty\<close> is taken in HOL)\<close>
  "df_empty df \<longleftrightarrow> df_rows df = [] \<or> df_columns df = {}"

section \<open>Normalization\<close>

definition token_amount :: "token option \<Rightarrow> amount" where
  \<comment> \<open>\<open>tx.get(key, {}).get('amountUSD', 0)\<close>\<close>
  "token_amount t =
     (case t of None \<Rightarrow> IntAmount 0
      | Some tk \<Rightarrow> (case amountUSD tk of None \<Rightarrow> IntAmount 0 | Some a \<Rightarrow> a))"

definition token_symbol :: "token option \<Rightarrow> string option" where
  \<comment> \<open>\<open>tx.get(key, {}).get('symbol')\<close>\<close>
  "token_symbol t = (case t of None \<Rightarrow> None | Some tk \<Rightarrow> symbol tk)"

definition to_datetime :: "int option \<Rightarrow> int option" where
  \<comment> \<open>\<open>pd.to_datetime(unit='s', errors='coerce')\<close> on one value: pandas keeps a
      datetime as a signed 64-bit count of nanoseconds; a missing value and a value out
      of that range become NaT (\<open>None\<close>).\<close>
  "to_datetime v =
     (case v of None \<Rightarrow> None
      | Some t \<Rightarrow>
          if - 9223372036854775807 \<le> t * 1000000000 \<and> t * 1000000000 \<le> 9223372036854775807
          then Some t else None)"

definition make_row :: "string \<Rightarrow> transaction \<Rightarrow> int \<Rightarrow> row" where
  \<comment> \<open>lines 25-47: the row dictionary of one transaction whose timestamp is \<open>t\<close>\<close>
  "make_row addr tx t =
     (let r = \<lparr> r_wallet_address = addr, r_document_id = document_id tx,
                r_action = action tx, r_timestamp = t, r_protocol = protocol tx,
                r_pool_id = poolId tx, r_pool_name = poolName tx,
                r_amount_usd = None, r_token_in_symbol = None, r_token_out_symbol = None,
                r_token0_symbol = None, r_token1_symbol = None \<rparr>
      in if action tx = Some ''swap'' then
           r\<lparr> r_amount_usd := Some (py_max (token_amount (tokenIn tx)) (token_amount (tokenOut tx))),
              r_token_in_symbol := token_symbol (tokenIn tx),
              r_token_out_symbol := token_symbol (tokenOut tx) \<rparr>
         else if action tx = Some ''deposit'' \<or> action tx = Some ''withdraw'' then
           r\<lparr> r_amount_usd := Some (py_add (token_amount (token0 tx)) (token_amount (token1 tx))),
              r_token0_symbol := token_symbol (token0 tx),
              r_token1_symbol := token_symbol (token1 tx) \<rparr>
         else r)"

definition amount_cell :: "transaction \<Rightarrow> amount option" where
  \<comment> \<open>the \<open>amount_usd\<close> of the row dictionary of a transaction; it depends neither on
      the wallet address nor on the timestamp\<close>
  "amount_cell tx = r_amount_usd (make_row [] tx 0)"

definition row_keys :: "transaction \<Rightarrow> string set" where
  \<comment> \<open>the keys of the row dictionary of a transaction\<close>
  "row_keys tx =
     {''wallet_address'', ''document_id'', ''action'', ''timestamp'', ''protocol'',
      ''pool_id'', ''pool_name''} \<union>
     (if action tx = Some ''swap'' then {''amount_usd'', ''token_in_symbol'', ''token_out_symbol''}
      else if action tx = Some ''deposit'' \<or> action tx = Some ''withdraw''
        then {''amount_usd'', ''token0_symbol'', ''token1_symbol''}
      else {})"

definition dex_transactions :: "wallet_data \<Rightarrow> transaction list" where
  \<comment> \<open>lines 20-24: the entries of the groups tagged \<open>dexes\<close>, in order\<close>
  "dex_transactions wd =
     concat (map transactions (filter (\<lambda>c. protocolType c = Some ''dexes'') (data wd)))"

definition preprocess_dex_transactions :: "wallet_data \<Rightarrow> dataframe" where
  \<comment> \<open>A row is appended for every DEX entry (its keys become columns); then the
      \<open>datetime\<close> column is added and the rows whose timestamp did not parse are
      dropped (lines 51-54); dropping rows does not change the type of a column. With no
      entry at all the DataFrame has no column.\<close>
  "preprocess_dex_transactions wd =
     (let wallet_address = (case wallet_address wd of None \<Rightarrow> ''N/A'' | Some a \<Rightarrow> a);
          txs = dex_transactions wd
      in if txs = [] then \<lparr> df_rows = [], df_columns = {}, df_amount_dtype = object \<rparr>
         else \<lparr> df_rows =
                  List.map_filter
                    (\<lambda>tx. map_option (make_row wallet_address tx) (to_datetime (timestamp tx))) txs,
                df_columns = (\<Union>tx \<in> set txs. row_keys tx) \<union> {''datetime''},
                df_amount_dtype = amount_dtype (map amount_cell txs) \<rparr>)"

section \<open>Features\<close>

definition select :: "dataframe \<Rightarrow> string \<Rightarrow> dataframe" where
  \<comment> \<open>\<open>df[df['action'] == a]\<close>: the rows of one action, the columns unchanged\<close>
  "select df a = df\<lparr> df_rows := filter (\<lambda>r. r_action r = Some a) (df_rows df) \<rparr>"

definition int64_wrap :: "int \<Rightarrow> int" where
  \<comment> \<open>the value of an integer kept in 64 bits, two's complement\<close>
  "int64_wrap n = (n + 9223372036854775808) mod 18446744073709551616 - 9223372036854775808"

definition amount_sum :: "dataframe \<Rightarrow> pyval" where
  \<comment> \<open>\<open>df['amount_usd'].sum()\<close>: the sum skips the missing cells and is taken in the
      type of the column: 64-bit integers wrap around, Python objects are added as Python
      numbers.\<close>
  "amount_sum df =
     (let cells = map r_amount_usd (df_rows df);
          amounts = List.map_filter (\<lambda>c. c) cells
      in case df_amount_dtype df of
           float64 \<Rightarrow> NpFloat (sum_list (map amount_value amounts))
         | int64 \<Rightarrow> NpInt (int64_wrap (sum_list (int_cells cells)))
         | uint64 \<Rightarrow> NpInt (sum_list (int_cells cells) mod 18446744073709551616)
         | object \<Rightarrow>
             if \<forall>a \<in> set amounts. case a of IntAmount _ \<Rightarrow> True | FloatAmount _ \<Rightarrow> False
             then PyInt (sum_list (int_cells cells))
             else PyFloat (sum_list (map amount_value amounts)))"

definition nunique :: "string option list \<Rightarrow> int" where
  \<comment> \<open>\<open>Series.nunique()\<close>: the number of distinct values, the missing ones left out\<close>
  "nunique xs = int (length (remdups (List.map_filter (\<lambda>x. x) xs)))"

definition calculate_holding_time :: "real \<Rightarrow> dataframe \<Rightarrow> dataframe \<Rightarrow> error + pyval" where
  \<comment> \<open>\<open>current_time\<close> is the reading of \<open>datetime.now().timestamp()\<close> (line 67)\<close>
  "calculate_holding_time current_time deposits withdraws =
     (if df_empty deposits then Inr (PyFloat 0)
      else if ''timestamp'' \<notin> df_columns deposits then Inl (KeyError ''timestamp'')
      else if ''timestamp'' \<notin> df_columns withdraws then Inl (KeyError ''timestamp'')
      else
        let holding_times =
              map (\<lambda>deposit.
                     let deposit_time = r_timestamp deposit;
                         future_withdraws =
                           filter (\<lambda>w. r_timestamp w > deposit_time) (df_rows withdraws);
                         holding_time_seconds =
                           (if future_withdraws \<noteq> [] then
                              let withdraw_time = Min (set (map r_timestamp future_withdraws))
                              in real_of_int (withdraw_time - deposit_time)
                            else current_time - real_of_int deposit_time)
                     in holding_time_seconds / 86400)
                  (df_rows deposits)
        in if holding_times \<noteq> []
           then Inr (NpFloat (sum_list holding_times / real (length holding_times)))
           else Inr (PyFloat 0))"

definition calculate_lp_features :: "real \<Rightarrow> dataframe \<Rightarrow> error + dict" where
  \<comment> \<open>The column reads are checked in the order the source makes them.\<close>
  "calculate_lp_features current_time df =
     (if ''action'' \<notin> df_columns df then Inl (KeyError ''action'')
      else
        let deposits = select df ''deposit'';
            withdraws = select df ''withdraw''
        in if ''amount_usd'' \<notin> df_columns df then Inl (KeyError ''amount_usd'')
           else
             let total_deposit_usd = amount_sum deposits;
                 total_withdraw_usd = amount_sum withdraws
             in case calculate_holding_time current_time deposits withdraws of
                  Inl e \<Rightarrow> Inl e
                | Inr avg_hold_time_days \<Rightarrow>
                    if \<not> df_empty df \<and> ''timestamp'' \<notin> df_columns df then Inl (KeyError ''timestamp'')
                    else if ''pool_id'' \<notin> df_columns df then Inl (KeyError ''pool_id'')
                    else Inr
                      [(''total_deposit_usd'', total_deposit_usd),
                       (''total_withdraw_usd'', total_withdraw_usd),
                       (''num_deposits'', PyInt (int (length (df_rows deposits)))),
                       (''num_withdraws'', PyInt (int (length (df_rows withdraws)))),
                       (''withdraw_ratio'',
                          if num total_deposit_usd > 0
                          then truediv total_withdraw_usd total_deposit_usd else PyFloat 0),
                       (''avg_hold_time_days'', avg_hold_time_days),
                       (''account_age_days'',
                          if \<not> df_empty df
                          then NpFloat (real_of_int (Max (set (map r_timestamp (df_rows df)))
                                          - Min (set (map r_timestamp (df_rows df)))) / 86400)
                          else PyFloat 0),
                       (''unique_pools'', PyInt (nunique (map r_pool_id (df_rows df))))])"

definition calculate_swap_features :: "dataframe \<Rightarrow> error + dict" where
  "calculate_swap_features df =
     (if ''action'' \<notin> df_columns df then Inl (KeyError ''action'')
      else
        let swaps = select df ''swap''
        in if df_empty swaps then Inr
             [(''total_swap_volume'', PyFloat 0), (''num_swaps'', PyInt 0),
              (''unique_pools_swapped'', PyInt 0), (''avg_swap_size'', PyFloat 0),
              (''token_diversity'', PyInt 0)]
           else if ''amount_usd'' \<notin> df_columns df then Inl (KeyError ''amount_usd'')
           else if ''token_in_symbol'' \<notin> df_columns df then Inl (KeyError ''token_in_symbol'')
           else if ''token_out_symbol'' \<notin> df_columns df then Inl (KeyError ''token_out_symbol'')
           else if ''pool_id'' \<notin> df_columns df then Inl (KeyError ''pool_id'')
           else
             let total_swap_volume = amount_sum swaps;
                 num_swaps = int (length (df_rows swaps));
                 tokens_in = List.map_filter r_token_in_symbol (df_rows swaps);
                 tokens_out = List.map_filter r_token_out_symbol (df_rows swaps);
                 unique_tokens = remdups (tokens_in @ tokens_out)
             in Inr
               [(''total_swap_volume'', total_swap_volume),
                (''num_swaps'', PyInt num_swaps),
                (''unique_pools_swapped'', PyInt (nunique (map r_pool_id (df_rows swaps)))),
                (''avg_swap_size'',
                   if num_swaps > 0 then truediv total_swap_volume (PyInt num_swaps)
                   else PyFloat 0),
                (''token_diversity'', PyInt (int (length unique_tokens)))])"

section \<open>Scoring\<close>

definition lp_score :: "dict \<Rightarrow> real" where
  \<comment> \<open>lines 133-136\<close>
  "lp_score lp_features =
     (let volume_score_lp = min (num (get lp_features ''total_deposit_usd'' (PyInt 0)) / 10000 * 300) 300;
          retention_score = max 0 ((1 - num (get lp_features ''withdraw_ratio'' (PyInt 0))) * 250);
          holding_score = min (num (get lp_features ''avg_hold_time_days'' (PyInt 0)) / 30 * 150) 150
      in volume_score_lp + retention_score + holding_score)"

definition swap_score :: "dict \<Rightarrow> real" where
  \<comment> \<open>lines 139-142\<close>
  "swap_score swap_features =
     (let volume_score_swap = min (num (get swap_features ''total_swap_volume'' (PyInt 0)) / 50000 * 250) 250;
          frequency_score_swap = min (num (get swap_features ''num_swaps'' (PyInt 0)) * 10) 200;
          diversity_score_swap = min (num (get swap_features ''token_diversity'' (PyInt 0)) * 20) 150
      in volume_score_swap + frequency_score_swap + diversity_score_swap)"

definition calculate_final_score :: "dict \<Rightarrow> dict \<Rightarrow> real \<times> dict" where
  "calculate_final_score lp_features swap_features =
     (let final_score = lp_score lp_features * 0.6 + swap_score swap_features * 0.4;
          all_features = merge lp_features swap_features
      in (final_score, all_features))"

fun sanitize_value :: "pyval \<Rightarrow> pyval" where
  "sanitize_value (NpInt i) = PyInt i"
| "sanitize_value (NpFloat x) = PyFloat x"
| "sanitize_value v = v"

definition sanitize_features :: "dict \<Rightarrow> dict" where
  "sanitize_features features = map (\<lambda>kv. (fst kv, sanitize_value (snd kv))) features"

definition process_wallet :: "real \<Rightarrow> wallet_data \<Rightarrow> error + real \<times> dict" where
  "process_wallet current_time wd =
     (let df = preprocess_dex_transactions wd
      in if df_empty df then Inl (ValueError ''No valid DEX transactions found for this wallet.'')
         else
           case calculate_lp_features current_time df of
             Inl e \<Rightarrow> Inl e
           | Inr lp_features \<Rightarrow>
               (case calculate_swap_features df of
                  Inl e \<Rightarrow> Inl e
                | Inr swap_features \<Rightarrow>
                    let scored = calculate_final_score lp_features swap_features;
                        sanitized_features = sanitize_features (snd scored)
                    in Inr (fst scored,
                            AList.update ''transaction_count'' (PyInt (int (length (df_rows df))))
                              sanitized_features)))"

section \<open>The Kafka service\<close>

text \<open>
  The input models of \<open>types.py\<close>. Validation keeps the declared fields only, so the
  dictionary handed to the scoring engine (\<open>validated_data.dict()\<close>) has no pool and
  no token entries.
\<close>

record TransactionDetail =
  td_document_id :: string
  td_action :: string
  td_timestamp :: int

record ProtocolData =
  pd_protocolType :: string
  pd_transactions :: "TransactionDetail list"

record WalletTransactionInput =
  wti_wallet_address :: string
  wti_data :: "ProtocolData list"

definition dict_of_transaction :: "TransactionDetail \<Rightarrow> transaction" where
  "dict_of_transaction td =
     \<lparr> document_id = Some (td_document_id td), action = Some (td_action td),
       timestamp = Some (td_timestamp td), protocol = None, poolId = None, poolName = None,
       tokenIn = None, tokenOut = None, token0 = None, token1 = None \<rparr>"

definition dict_of :: "WalletTransactionInput \<Rightarrow> wallet_data" where
  "dict_of v =
     \<lparr> wallet_address = Some (wti_wallet_address v),
       data = map (\<lambda>p. \<lparr> protocolType = Some (pd_protocolType p),
                          transactions = map dict_of_transaction (pd_transactions p) \<rparr>)
                  (wti_data v) \<rparr>"

text \<open>
  The outcome records. The fields read from the clock (\<open>timestamp\<close>,
  \<open>processing_time_ms\<close>) and the formatted copy of the score (\<open>zscore\<close>) are left
  out: they do not enter any computation.
\<close>

datatype payload =
  success_payload string real pyval dict
| failure_payload string string

datatype topic = success_topic | failure_topic

record service =
  is_running :: bool
  processed_count :: int
  success_count :: int
  failure_count :: int
  produced :: "(topic \<times> payload) list"

definition init :: service where
  \<comment> \<open>\<open>__init__\<close>; \<open>produced\<close> is the log of the messages the producer has delivered\<close>
  "init = \<lparr> is_running = False, processed_count = 0, success_count = 0, failure_count = 0,
            produced = [] \<rparr>"

definition get_stats :: "service \<Rightarrow> int \<times> int \<times> int \<times> bool" where
  "get_stats s = (processed_count s, success_count s, failure_count s, is_running s)"

definition start_consumer :: "service \<Rightarrow> service" where
  \<comment> \<open>sets the flag; the worker thread it starts is \<open>processing_loop\<close>\<close>
  "start_consumer s = (if \<not> is_running s then s\<lparr> is_running := True \<rparr> else s)"

text \<open>
  The part of the loop body that handles a polled message (lines 61-103) either returns
  to the \<open>while\<close> test (\<open>Next\<close>) or lets an exception escape, which ends the
  worker thread (\<open>Raised\<close>). The \<open>break\<close> of the loop is in the handling of
  the poll itself.
\<close>

datatype step = Next service | Raised service

text \<open>
  The transport and the schema validation are libraries, taken as parameters:
  \<open>decode\<close> is \<open>json.loads\<close> followed by the construction of
  \<open>WalletTransactionInput\<close>, giving the message of the exception when one of them
  raises; \<open>produce topic message\<close> is \<open>_produce_message\<close>, giving \<open>None\<close> when
  the message is delivered and the message of the exception when the producer raises.
\<close>

definition on_exception ::
  "(topic \<Rightarrow> payload \<Rightarrow> string option) \<Rightarrow> string \<Rightarrow> string \<Rightarrow> service \<Rightarrow> step" where
  \<comment> \<open>the \<open>except\<close> block (lines 89-100) followed by \<open>finally\<close> (line 103)\<close>
  "on_exception produce address e s =
     (let failure = failure_payload address e
      in case produce failure_topic failure of
           Some _ \<Rightarrow> Raised (s\<lparr> processed_count := processed_count s + 1 \<rparr>)
         | None \<Rightarrow>
             Next (s\<lparr> produced := produced s @ [(failure_topic, failure)],
                      failure_count := failure_count s + 1,
                      processed_count := processed_count s + 1 \<rparr>))"

definition handle_message ::
  "('m \<Rightarrow> string + WalletTransactionInput) \<Rightarrow> (topic \<Rightarrow> payload \<Rightarrow> string option) \<Rightarrow>
   'm \<Rightarrow> real \<Rightarrow> service \<Rightarrow> step" where
  \<comment> \<open>lines 61-103 for the message \<open>msg\<close>; \<open>current_time\<close> is the clock while it is scored\<close>
  "handle_message decode produce msg current_time s =
     (case decode msg of
        Inl e \<Rightarrow> on_exception produce ''unknown'' e s
      | Inr validated_data \<Rightarrow>
          let wallet_address = wti_wallet_address validated_data
          in case process_wallet current_time (dict_of validated_data) of
               Inl e \<Rightarrow> on_exception produce wallet_address (str e) s
             | Inr scored \<Rightarrow>
                 (case map_of (snd scored) ''transaction_count'' of
                    None \<Rightarrow> on_exception produce wallet_address (str (KeyError ''transaction_count'')) s
                  | Some transaction_count \<Rightarrow>
                      let success =
                            success_payload wallet_address (fst scored) transaction_count
                              (AList.delete ''transaction_count'' (snd scored))
                      in case produce success_topic success of
                           Some e \<Rightarrow> on_exception produce wallet_address e s
                         | None \<Rightarrow>
                             Next (s\<lparr> produced := produced s @ [(success_topic, success)],
                                      success_count := success_count s + 1,
                                      processed_count := processed_count s + 1 \<rparr>)))"

text \<open>
  What the worker meets, in order: a request to stop from the other thread
  (\<open>stop_consumer\<close> clears the flag), or the result of a poll: nothing, an error
  message of the consumer (end of partition or another one), or a message together with
  the clock reading while it is scored.
\<close>

datatype 'm event =
  stop_requested
| poll_none
| poll_partition_eof
| poll_error
| poll_message 'm real

text \<open>
  The loop over a finite prefix of what the worker meets. It ends \<open>Closed\<close> when the
  loop is left and the consumer closed, \<open>Died\<close> when an exception escapes, and
  \<open>Running\<close> when the prefix is used up and the worker is still polling.
\<close>

datatype run = Running service | Closed service | Died service

fun processing_loop ::
  "('m \<Rightarrow> string + WalletTransactionInput) \<Rightarrow> (topic \<Rightarrow> payload \<Rightarrow> string option) \<Rightarrow>
   'm event list \<Rightarrow> service \<Rightarrow> run" where
  "processing_loop decode produce [] s = (if is_running s then Running s else Closed s)"
| "processing_loop decode produce (ev # evs) s =
     (if \<not> is_running s then Closed s
      else case ev of
        stop_requested \<Rightarrow> processing_loop decode produce evs (s\<lparr> is_running := False \<rparr>)
      | poll_none \<Rightarrow> processing_loop decode produce evs s
      | poll_partition_eof \<Rightarrow> processing_loop decode produce evs s
      | poll_error \<Rightarrow> Closed s
      | poll_message msg current_time \<Rightarrow>
          (case handle_message decode produce msg current_time s of
             Next s' \<Rightarrow> processing_loop decode produce evs s'
           | Raised s' \<Rightarrow> Died s'))"

fun state_of :: "run \<Rightarrow> service" where
  "state_of (Running s) = s"
| "state_of (Closed s) = s"
| "state_of (Died s) = s"

section \<open>Example batches\<close>

definition usd :: "real \<Rightarrow> string \<Rightarrow> token option" where
  \<comment> \<open>a token with a float amount\<close>
  "usd a s = Some \<lparr> amountUSD = Some (FloatAmount a), symbol = Some s \<rparr>"

definition sample_pool :: "string option" where
  "sample_pool = Some ''0x88e6a0c2ddd26feeb64f039a2c41296fcb3f5640''"

definition sample_swap :: transaction where
  "sample_swap =
     \<lparr> document_id = Some ''507f1f77bcf86cd799439011'', action = Some ''swap'',
       timestamp = Some 1703980800, protocol = Some ''uniswap_v3'', poolId = sample_pool,
       poolName = Some ''Uniswap V3 USDC/WETH 0.05%'',
       tokenIn = usd 1000 ''USDC'', tokenOut = usd 1000 ''WETH'', token0 = None, token1 = None \<rparr>"

definition sample_deposit :: transaction where
  "sample_deposit =
     \<lparr> document_id = Some ''507f1f77bcf86cd799439012'', action = Some ''deposit'',
       timestamp = Some 1703980900, protocol = Some ''uniswap_v3'', poolId = sample_pool,
       poolName = Some ''Uniswap V3 USDC/WETH 0.05%'',
       tokenIn = None, tokenOut = None, token0 = usd 500 ''USDC'', token1 = usd 500 ''WETH'' \<rparr>"

definition sample_withdraw :: transaction where
  "sample_withdraw =
     \<lparr> document_id = Some ''507f1f77bcf86cd799439013'', action = Some ''withdraw'',
       timestamp = Some 1703981800, protocol = Some ''uniswap_v3'', poolId = sample_pool,
       poolName = Some ''Uniswap V3 USDC/WETH 0.05%'',
       tokenIn = None, tokenOut = None, token0 = usd 250 ''USDC'', token1 = usd 250 ''WETH'' \<rparr>"

definition SAMPLE_WALLET_MESSAGE :: wallet_data where
  \<comment> \<open>the sample message of \<open>test_challenge.py\<close>\<close>
  "SAMPLE_WALLET_MESSAGE =
     \<lparr> wallet_address = Some ''0x742d35Cc6634C0532925a3b8D4C9db96590e4265'',
       data = [\<lparr> protocolType = Some ''dexes'',
                  transactions = [sample_swap, sample_deposit, sample_withdraw] \<rparr>] \<rparr>"

definition sample_input :: WalletTransactionInput where
  \<comment> \<open>the sample message after validation: the declared fields only\<close>
  "sample_input =
     \<lparr> wti_wallet_address = ''0x742d35Cc6634C0532925a3b8D4C9db96590e4265'',
       wti_data =
         [\<lparr> pd_protocolType = ''dexes'',
            pd_transactions =
              [\<lparr> td_document_id = ''507f1f77bcf86cd799439011'', td_action = ''swap'',
                  td_timestamp = 1703980800 \<rparr>,
               \<lparr> td_document_id = ''507f1f77bcf86cd799439012'', td_action = ''deposit'',
                  td_timestamp = 1703980900 \<rparr>,
               \<lparr> td_document_id = ''507f1f77bcf86cd799439013'', td_action = ''withdraw'',
                  td_timestamp = 1703981800 \<rparr>] \<rparr>] \<rparr>"

definition transfer_entry :: TransactionDetail where
  \<comment> \<open>an entry whose action is none of swap, deposit, withdraw\<close>
  "transfer_entry =
     \<lparr> td_document_id = ''507f1f77bcf86cd799439014'', td_action = ''transfer'',
       td_timestamp = 1703980800 \<rparr>"

definition transfer_only_input :: WalletTransactionInput where
  "transfer_only_input =
     \<lparr> wti_wallet_address = ''0xabc'',
       wti_data = [\<lparr> pd_protocolType = ''dexes'', pd_transactions = [transfer_entry] \<rparr>] \<rparr>"

definition lending_only_input :: WalletTransactionInput where
  "lending_only_input =
     \<lparr> wti_wallet_address = ''0xabc'',
       wti_data = [\<lparr> pd_protocolType = ''lending'', pd_transactions = [transfer_entry] \<rparr>] \<rparr>"

definition sample_with_transfer :: wallet_data where
  "sample_with_transfer =
     \<lparr> wallet_address = Some ''0x742d35Cc6634C0532925a3b8D4C9db96590e4265'',
       data = [\<lparr> protocolType = Some ''dexes'',
                  transactions = [sample_swap, dict_of_transaction transfer_entry] \<rparr>] \<rparr>"

definition sample_decode :: "string \<Rightarrow> string + WalletTransactionInput" where
  \<comment> \<open>a decoder that accepts one message and rejects the others as \<open>json.loads\<close> does\<close>
  "sample_decode m =
     (if m = ''sample'' then Inr sample_input
      else Inl ''Expecting value: line 1 column 1 (char 0)'')"

definition future_deposit_input :: WalletTransactionInput where
  \<comment> \<open>one deposit, timestamped 300 days after the clock reading 1800000000\<close>
  "future_deposit_input =
     \<lparr> wti_wallet_address = ''0xabc'',
       wti_data =
         [\<lparr> pd_protocolType = ''dexes'',
            pd_transactions =
              [\<lparr> td_document_id = ''507f1f77bcf86cd799439015'', td_action = ''deposit'',
                  td_timestamp = 1825920000 \<rparr>] \<rparr>] \<rparr>"

definition negative_withdraw_batch :: wallet_data where
  \<comment> \<open>a deposit of 10000 USD and a withdraw whose amount is negative\<close>
  "negative_withdraw_batch =
     \<lparr> wallet_address = Some ''0xabc'',
       data = [\<lparr> protocolType = Some ''dexes'',
                  transactions =
                    [sample_deposit\<lparr> token0 := usd 10000 ''USDC'', token1 := None \<rparr>,
                     sample_withdraw\<lparr> token0 := usd (- 100000) ''USDC'', token1 := None \<rparr>] \<rparr>] \<rparr>"

definition integer_deposit :: "int \<Rightarrow> int \<Rightarrow> transaction" where
  \<comment> \<open>a deposit at a timestamp whose only amount is a JSON integer\<close>
  "integer_deposit t a =
     sample_deposit\<lparr> timestamp := Some t,
                     token0 := Some \<lparr> amountUSD = Some (IntAmount a), symbol = Some ''USDC'' \<rparr>,
                     token1 := None \<rparr>"

definition integer_deposits_batch :: wallet_data where
  \<comment> \<open>two deposits of 5000000000000000000 USD, written as integers, and a later withdraw of
      1 USD, written as an integer\<close>
  "integer_deposits_batch =
     \<lparr> wallet_address = Some ''0xabc'',
       data = [\<lparr> protocolType = Some ''dexes'',
                  transactions =
                    [integer_deposit 1703980900 5000000000000000000,
                     integer_deposit 1703980900 5000000000000000000,
                     (integer_deposit 1703981800 1)\<lparr> action := Some ''withdraw'' \<rparr>] \<rparr>] \<rparr>"

section \<open>Notions used to state the properties\<close>

fun after :: "step \<Rightarrow> service" where
  "after (Next s) = s"
| "after (Raised s) = s"

definition message_error ::
  "('m \<Rightarrow> string + WalletTransactionInput) \<Rightarrow> 'm \<Rightarrow> real \<Rightarrow> (string \<times> string) option" where
  \<comment> \<open>the exception that deserialization, validation or scoring of a message raises, if
      any: the wallet address known at that point and the message of the exception\<close>
  "message_error decode msg current_time =
     (case decode msg of
        Inl e \<Rightarrow> Some (''unknown'', e)
      | Inr validated_data \<Rightarrow>
          (case process_wallet current_time (dict_of validated_data) of
             Inl e \<Rightarrow> Some (wti_wallet_address validated_data, str e)
           | Inr _ \<Rightarrow> None))"

definition handle_event ::
  "('m \<Rightarrow> string + WalletTransactionInput) \<Rightarrow> (topic \<Rightarrow> payload \<Rightarrow> string option) \<Rightarrow>
   service \<Rightarrow> 'm event \<Rightarrow> service" where
  \<comment> \<open>the state after one poll that neither stops nor fails: a message is handled, an
      empty poll and the end of a partition change nothing\<close>
  "handle_event decode produce s ev =
     (case ev of
        poll_message msg current_time \<Rightarrow> after (handle_message decode produce msg current_time s)
      | _ \<Rightarrow> s)"

definition counters_agree :: "service \<Rightarrow> bool" where
  "counters_agree s \<longleftrightarrow> processed_count s = success_count s + failure_count s"

text \<open>
  The average holding time as the specification words it, over the timestamps of the
  deposits and of the withdraws: the duration of a deposit is the smallest withdraw
  timestamp strictly greater than its own, minus its own, or the time from the deposit
  until now when there is none; the result is the mean of the durations over all
  deposits, divided by 86400, and 0 when there are no deposits.
\<close>

definition holding_duration_spec :: "real \<Rightarrow> int list \<Rightarrow> int \<Rightarrow> real" where
  "holding_duration_spec now withdraw_times d =
     (if \<exists>w \<in> set withdraw_times. d < w
      then real_of_int (Min {w \<in> set withdraw_times. d < w} - d)
      else now - real_of_int d)"

definition avg_holding_days_spec :: "real \<Rightarrow> int list \<Rightarrow> int list \<Rightarrow> real" where
  "avg_holding_days_spec now deposit_times withdraw_times =
     (if deposit_times = [] then 0
      else (sum_list (map (holding_duration_spec now withdraw_times) deposit_times)
              / real (length deposit_times)) / 86400)"


section \<open>Verified properties\<close>

lemmas sample_defs =
  SAMPLE_WALLET_MESSAGE_def sample_swap_def sample_deposit_def sample_withdraw_def
  usd_def sample_pool_def sample_input_def transfer_entry_def transfer_only_input_def
  lending_only_input_def sample_with_transfer_def sample_decode_def
  future_deposit_input_def negative_withdraw_batch_def integer_deposit_def
  integer_deposits_batch_def

lemmas model_defs =
  process_wallet_def preprocess_dex_transactions_def dex_transactions_def to_datetime_def
  make_row_def df_empty_def row_keys_def calculate_lp_features_def calculate_swap_features_def
  calculate_holding_time_def select_def amount_sum_def token_amount_def token_symbol_def
  nunique_def calculate_final_score_def lp_score_def swap_score_def get_def merge_def
  sanitize_features_def dict_of_def dict_of_transaction_def Let_def
  amount_dtype_def int_cells_def amount_cell_def int64_wrap_def truediv_def py_max_def

subsection \<open>Normalization\<close>

lemma amount_value_py_max:
  "amount_value (py_max a b) = max (amount_value a) (amount_value b)"
  by (simp add: py_max_def max_def)

lemma amount_value_py_add:
  "amount_value (py_add a b) = amount_value a + amount_value b"
  by (cases a; cases b) simp_all



text \<open>
  In the service the batch has been through validation, which keeps the declared fields
  only: no row then has a pool, a token symbol or an amount other than the default 0.
\<close>

lemma validated_rows_no_amounts:
  assumes "r \<in> set (df_rows (preprocess_dex_transactions (dict_of v)))"
  shows "(r_amount_usd r = None \<or> r_amount_usd r = Some (IntAmount 0)) \<and> r_pool_id r = None \<and>
         r_token_in_symbol r = None \<and> r_token_out_symbol r = None"
proof -
  have "r \<in> set (List.map_filter
                    (\<lambda>tx. map_option (make_row a tx) (to_datetime (timestamp tx)))
                    (map dict_of_transaction tds)) \<Longrightarrow>
        (r_amount_usd r = None \<or> r_amount_usd r = Some (IntAmount 0)) \<and> r_pool_id r = None \<and>
         r_token_in_symbol r = None \<and> r_token_out_symbol r = None" for a tds
    by (induction tds)
       (auto simp: make_row_def dict_of_transaction_def token_amount_def token_symbol_def
             py_max_def Let_def split: option.splits if_splits)
  moreover have "\<exists>tds. dex_transactions (dict_of v) = map dict_of_transaction tds"
  proof -
    have "\<exists>tds. concat (map transactions (filter (\<lambda>c. protocolType c = Some ''dexes'')
              (map (\<lambda>p. \<lparr> protocolType = Some (pd_protocolType p),
                          transactions = map dict_of_transaction (pd_transactions p) \<rparr>) ps))) =
            map dict_of_transaction tds" for ps
    proof (induction ps)
      case Nil
      then show ?case by simp
    next
      case (Cons p ps)
      then obtain tds where "concat (map transactions (filter (\<lambda>c. protocolType c = Some ''dexes'')
              (map (\<lambda>p. \<lparr> protocolType = Some (pd_protocolType p),
                          transactions = map dict_of_transaction (pd_transactions p) \<rparr>) ps))) =
            map dict_of_transaction tds" by blast
      then show ?case
        by (cases "pd_protocolType p = ''dexes''")
           (auto intro: exI [of _ "pd_transactions p @ tds"])
    qed
    then show ?thesis by (simp add: dex_transactions_def dict_of_def)
  qed
  ultimately show ?thesis
    using assms by (auto simp: preprocess_dex_transactions_def Let_def split: if_splits)
qed

lemma length_rows:
  "length (df_rows (preprocess_dex_transactions wd)) =
   length (filter (\<lambda>tx. to_datetime (timestamp tx) \<noteq> None) (dex_transactions wd))"
proof -
  have "length (List.map_filter
                  (\<lambda>tx. map_option (make_row a tx) (to_datetime (timestamp tx))) txs) =
        length (filter (\<lambda>tx. to_datetime (timestamp tx) \<noteq> None) txs)" for a txs
    by (induction txs) auto
  then show ?thesis by (simp add: preprocess_dex_transactions_def Let_def)
qed

lemma empty_frame:
  assumes "(\<forall>c \<in> set (data wd). protocolType c \<noteq> Some ''dexes'') \<or>
           (\<forall>tx \<in> set (dex_transactions wd). to_datetime (timestamp tx) = None)"
  shows "df_rows (preprocess_dex_transactions wd) = []"
proof -
  have a: "(\<forall>c \<in> set (data wd). protocolType c \<noteq> Some ''dexes'') \<Longrightarrow> dex_transactions wd = []"
    by (simp add: dex_transactions_def filter_empty_conv[THEN iffD2])
  have b: "(\<forall>tx \<in> set txs. to_datetime (timestamp tx) = None) \<Longrightarrow>
     List.map_filter (\<lambda>tx. map_option (make_row a tx) (to_datetime (timestamp tx))) txs = []"
    for a txs
    by (induction txs) auto
  from assms show ?thesis
    using a b by (auto simp: preprocess_dex_transactions_def Let_def)
qed

subsection \<open>One message\<close>

lemma on_exception_cases:
  "on_exception produce a e s =
     (if produce failure_topic (failure_payload a e) = None
      then Next (s\<lparr> produced := produced s @ [(failure_topic, failure_payload a e)],
                     failure_count := failure_count s + 1,
                     processed_count := processed_count s + 1 \<rparr>)
      else Raised (s\<lparr> processed_count := processed_count s + 1 \<rparr>))"
  by (simp add: on_exception_def Let_def split: option.splits)

lemma handle_message_error:
  "message_error decode msg t = Some (a, e) \<Longrightarrow>
   handle_message decode produce msg t s = on_exception produce a e s"
  by (auto simp: message_error_def handle_message_def Let_def split: sum.splits)

lemma handle_message_cases:
  "(\<exists>a e. handle_message decode produce msg t s = on_exception produce a e s) \<or>
   (\<exists>p. produce success_topic p = None \<and>
      handle_message decode produce msg t s =
        Next (s\<lparr> produced := produced s @ [(success_topic, p)],
                 success_count := success_count s + 1,
                 processed_count := processed_count s + 1 \<rparr>))"
  by (auto simp: handle_message_def Let_def split: sum.splits option.splits)

lemma handle_message_Raised:
  assumes "handle_message decode produce msg t s = Raised s'"
  shows "\<exists>p err. produce failure_topic p = Some err"
  using handle_message_cases [of decode produce msg t s] assms
  by (auto simp: on_exception_cases split: if_splits)

lemma handle_message_running:
  "handle_message decode produce msg t s = Next s' \<Longrightarrow> is_running s' = is_running s"
  using handle_message_cases [of decode produce msg t s]
  by (auto simp: on_exception_cases split: if_splits)

lemma handle_message_counts:
  assumes "handle_message decode produce msg t s = Next s'"
  shows "processed_count s' = processed_count s + 1 \<and>
     ((success_count s' = success_count s + 1 \<and> failure_count s' = failure_count s) \<or>
      (failure_count s' = failure_count s + 1 \<and> success_count s' = success_count s))"
  using handle_message_cases [of decode produce msg t s] assms
  by (auto simp: on_exception_cases split: if_splits)

text \<open>
  When the producer raises on the failure record itself, \<open>finally\<close> still counts the
  message as processed, and neither of the other two counters moves.
\<close>

lemma handle_message_Raised_counts:
  assumes "handle_message decode produce msg t s = Raised s'"
  shows "processed_count s' = processed_count s + 1 \<and>
     success_count s' = success_count s \<and> failure_count s' = failure_count s"
  using handle_message_cases [of decode produce msg t s] assms
  by (auto simp: on_exception_cases split: if_splits)

lemma process_wallet_transfer_only:
  "process_wallet t (dict_of transfer_only_input) = Inl (KeyError ''amount_usd'')"
  by (simp add: model_defs sample_defs)

text \<open>
  C2. A batch with no group tagged \<open>dexes\<close>, or whose DEX entries all have a timestamp
  that does not parse, is not scored: \<open>process_wallet\<close> raises the ``no valid
  transactions'' error, the service turns it into a failure record with that message for
  the wallet, and the only record the service may emit for the message is that failure
  record, never a success record.
\<close>

theorem no_valid_transactions_failure:
  assumes none: "(\<forall>c \<in> set (data wd). protocolType c \<noteq> Some ''dexes'') \<or>
                 (\<forall>tx \<in> set (dex_transactions wd). to_datetime (timestamp tx) = None)"
  shows "process_wallet current_time wd =
           Inl (ValueError ''No valid DEX transactions found for this wallet.'') \<and>
         (decode msg = Inr v \<and> dict_of v = wd \<longrightarrow>
            (produced (after (handle_message decode produce msg current_time s)) = produced s \<or>
             produced (after (handle_message decode produce msg current_time s)) =
               produced s @
                 [(failure_topic, failure_payload (wti_wallet_address v)
                     ''No valid DEX transactions found for this wallet.'')]) \<and>
            (produce failure_topic
               (failure_payload (wti_wallet_address v)
                  ''No valid DEX transactions found for this wallet.'') = None \<longrightarrow>
             handle_message decode produce msg current_time s =
               Next (s\<lparr> produced := produced s @
                          [(failure_topic, failure_payload (wti_wallet_address v)
                              ''No valid DEX transactions found for this wallet.'')],
                        failure_count := failure_count s + 1,
                        processed_count := processed_count s + 1 \<rparr>)))"
proof -
  have pw: "process_wallet current_time wd =
              Inl (ValueError ''No valid DEX transactions found for this wallet.'')"
    using empty_frame [OF none] by (simp add: process_wallet_def df_empty_def Let_def)
  then show ?thesis
    by (auto simp: handle_message_def on_exception_cases Let_def)
qed

theorem no_valid_transactions_failure_witness:
  "handle_message (\<lambda>m. Inr lending_only_input) (\<lambda>t p. None) () 1800000000 init =
     Next (init\<lparr> produced :=
                   [(failure_topic, failure_payload ''0xabc''
                       ''No valid DEX transactions found for this wallet.'')],
                 failure_count := 1, processed_count := 1 \<rparr>)"
proof -
  have h: "(\<forall>c \<in> set (data (dict_of lending_only_input)). protocolType c \<noteq> Some ''dexes'') \<or>
           (\<forall>tx \<in> set (dex_transactions (dict_of lending_only_input)).
               to_datetime (timestamp tx) = None)"
    by (simp add: dict_of_def lending_only_input_def)
  show ?thesis
    using no_valid_transactions_failure
      [OF h, of 1800000000 "\<lambda>m. Inr lending_only_input" "()" lending_only_input
         "\<lambda>t p. None" init]
    by (simp add: lending_only_input_def init_def)
qed

text \<open>
  C10. When deserialization or validation of a message raises, the wallet address has
  not been read yet: the failure record the service builds carries the address
  \<open>unknown\<close>, and it is the only record that may be emitted for the message.
\<close>

theorem undecoded_message_unknown_address:
  assumes "decode msg = Inl e"
  shows "handle_message decode produce msg current_time s =
           on_exception produce ''unknown'' e s \<and>
         (produced (after (handle_message decode produce msg current_time s)) = produced s \<or>
          produced (after (handle_message decode produce msg current_time s)) =
            produced s @ [(failure_topic, failure_payload ''unknown'' e)]) \<and>
         (produce failure_topic (failure_payload ''unknown'' e) = None \<longrightarrow>
            handle_message decode produce msg current_time s =
              Next (s\<lparr> produced := produced s @ [(failure_topic, failure_payload ''unknown'' e)],
                       failure_count := failure_count s + 1,
                       processed_count := processed_count s + 1 \<rparr>))"
  using assms by (auto simp: handle_message_def on_exception_cases)

theorem undecoded_message_unknown_address_witness:
  "handle_message sample_decode (\<lambda>t p. None) ''{'' 1800000000 init =
     Next (init\<lparr> produced :=
                   [(failure_topic,
                     failure_payload ''unknown'' ''Expecting value: line 1 column 1 (char 0)'')],
                 failure_count := 1, processed_count := 1 \<rparr>)"
proof -
  have h: "sample_decode ''{'' = Inl ''Expecting value: line 1 column 1 (char 0)''"
    by (simp add: sample_decode_def)
  show ?thesis
    using undecoded_message_unknown_address
      [where decode = sample_decode and msg = "''{''" and produce = "\<lambda>t p. None"
         and current_time = 1800000000 and s = init, OF h]
    by (simp add: init_def on_exception_cases)
qed

subsection \<open>Scoring\<close>

text \<open>
  C5. The liquidity feature calculation does not succeed on every non-empty table: a
  batch whose DEX entries all have an action other than swap, deposit and withdraw gives
  a table with a row and no \<open>amount_usd\<close> column, \<open>_calculate_lp_features\<close>
  raises \<open>KeyError\<close> on it, and the batch is not scored.
\<close>

theorem lp_features_key_error:
  "\<not> df_empty (preprocess_dex_transactions (dict_of transfer_only_input)) \<and>
   length (df_rows (preprocess_dex_transactions (dict_of transfer_only_input))) = 1 \<and>
   calculate_lp_features 1800000000 (preprocess_dex_transactions (dict_of transfer_only_input)) =
     Inl (KeyError ''amount_usd'') \<and>
   process_wallet 1800000000 (dict_of transfer_only_input) = Inl (KeyError ''amount_usd'')"
  by (simp add: model_defs sample_defs)

text \<open>
  The swap features of the same batch are computed: \<open>_calculate_swap_features\<close>
  returns its fixed zero-valued features before it reads a column of the swaps.
\<close>

lemma swap_features_transfer_only:
  "calculate_swap_features (preprocess_dex_transactions (dict_of transfer_only_input)) =
     Inr [(''total_swap_volume'', PyFloat 0), (''num_swaps'', PyInt 0),
          (''unique_pools_swapped'', PyInt 0), (''avg_swap_size'', PyFloat 0),
          (''token_diversity'', PyInt 0)]"
  by (simp add: model_defs sample_defs)

text \<open>
  When some DEX entry of the batch is a swap, a deposit or a withdraw, the table has the
  \<open>amount_usd\<close> column; the liquidity features are then computed, and with no
  deposit and no withdraw among the rows the totals, the counts, the ratio and the
  holding time are zero.
\<close>

lemma base_columns:
  assumes "c \<in> df_columns (preprocess_dex_transactions wd)"
  shows "{''action'', ''timestamp'', ''pool_id''} \<subseteq> df_columns (preprocess_dex_transactions wd)"
proof -
  from assms have "dex_transactions wd \<noteq> []"
    by (auto simp: preprocess_dex_transactions_def Let_def split: if_splits)
  then obtain tx where "tx \<in> set (dex_transactions wd)"
    by (cases "dex_transactions wd") auto
  then show ?thesis
    by (auto simp: preprocess_dex_transactions_def Let_def row_keys_def)
qed

lemma amount_sum_empty:
  "df_rows df = [] \<Longrightarrow> num (amount_sum df) = 0"
  by (cases "df_amount_dtype df") (simp_all add: amount_sum_def int_cells_def int64_wrap_def)

lemma lp_features_empty_subsequences:
  assumes col: "''amount_usd'' \<in> df_columns (preprocess_dex_transactions wd)"
      and none: "\<forall>r \<in> set (df_rows (preprocess_dex_transactions wd)).
                   r_action r \<noteq> Some ''deposit'' \<and> r_action r \<noteq> Some ''withdraw''"
  shows "\<exists>lp total_deposit total_withdraw.
           calculate_lp_features now (preprocess_dex_transactions wd) = Inr lp \<and>
           map_of lp ''total_deposit_usd'' = Some total_deposit \<and> num total_deposit = 0 \<and>
           map_of lp ''total_withdraw_usd'' = Some total_withdraw \<and> num total_withdraw = 0 \<and>
           map_of lp ''num_deposits'' = Some (PyInt 0) \<and>
           map_of lp ''num_withdraws'' = Some (PyInt 0) \<and>
           map_of lp ''withdraw_ratio'' = Some (PyFloat 0) \<and>
           map_of lp ''avg_hold_time_days'' = Some (PyFloat 0)"
proof -
  let ?df = "preprocess_dex_transactions wd"
  from base_columns [OF col] have b: "''action'' \<in> df_columns ?df"
    "''timestamp'' \<in> df_columns ?df" "''pool_id'' \<in> df_columns ?df"
    by auto
  from none have e: "df_rows (select ?df ''deposit'') = []" "df_rows (select ?df ''withdraw'') = []"
    by (auto simp: select_def filter_empty_conv)
  then have h: "calculate_holding_time now (select ?df ''deposit'') (select ?df ''withdraw'') =
                Inr (PyFloat 0)"
    by (simp add: calculate_holding_time_def df_empty_def)
  from e have z: "num (amount_sum (select ?df ''deposit'')) = 0"
    "num (amount_sum (select ?df ''withdraw'')) = 0"
    by (simp_all add: amount_sum_empty)
  show ?thesis
    using col b e h z by (simp add: calculate_lp_features_def Let_def)
qed

text \<open>
  C8. When a batch is scored, the \<open>transaction_count\<close> of the returned features is
  the number of rows kept by normalization, which is the number of DEX entries whose
  timestamp parses, whatever their action.
\<close>

theorem transaction_count_retained:
  assumes "process_wallet current_time wd = Inr (score, features)"
  shows "map_of features ''transaction_count'' =
           Some (PyInt (int (length (df_rows (preprocess_dex_transactions wd))))) \<and>
         length (df_rows (preprocess_dex_transactions wd)) =
           length (filter (\<lambda>tx. to_datetime (timestamp tx) \<noteq> None) (dex_transactions wd))"
  using assms length_rows [of wd]
  by (auto simp: process_wallet_def Let_def update_conv' split: if_splits sum.splits)

theorem transaction_count_retained_witness:
  "\<exists>score features.
     process_wallet 1800000000 sample_with_transfer = Inr (score, features) \<and>
     map_of features ''transaction_count'' = Some (PyInt 2) \<and>
     map (\<lambda>tx. action tx) (dex_transactions sample_with_transfer) = [Some ''swap'', Some ''transfer'']"
proof -
  have h: "process_wallet 1800000000 sample_with_transfer =
     Inr (172,
      [(''total_deposit_usd'', PyFloat 0), (''total_withdraw_usd'', PyFloat 0),
       (''num_deposits'', PyInt 0), (''num_withdraws'', PyInt 0),
       (''withdraw_ratio'', PyFloat 0), (''avg_hold_time_days'', PyFloat 0),
       (''account_age_days'', PyFloat 0), (''unique_pools'', PyInt 1),
       (''total_swap_volume'', PyFloat 1000), (''num_swaps'', PyInt 1),
       (''unique_pools_swapped'', PyInt 1), (''avg_swap_size'', PyFloat 1000),
       (''token_diversity'', PyInt 2), (''transaction_count'', PyInt 2)])"
    by (simp add: model_defs sample_defs)
  have n: "length (filter (\<lambda>tx. to_datetime (timestamp tx) \<noteq> None)
               (dex_transactions sample_with_transfer)) = 2"
    by (simp add: model_defs sample_defs)
  have a: "map (\<lambda>tx. action tx) (dex_transactions sample_with_transfer) =
             [Some ''swap'', Some ''transfer'']"
    by (simp add: model_defs sample_defs)
  from transaction_count_retained [OF h] n a h show ?thesis
    by simp
qed

subsection \<open>The processing loop\<close>

lemma loop_Died:
  "processing_loop decode produce evs s = Died s' \<Longrightarrow> \<exists>p err. produce failure_topic p = Some err"
proof (induction evs arbitrary: s)
  case Nil
  then show ?case by (simp split: if_splits)
next
  case (Cons ev evs)
  then show ?case
    by (auto split: if_splits event.splits step.splits dest: handle_message_Raised)
qed

lemma loop_Closed:
  "processing_loop decode produce evs s = Closed s' \<Longrightarrow>
     \<not> is_running s \<or> stop_requested \<in> set evs \<or> poll_error \<in> set evs"
proof (induction evs arbitrary: s)
  case Nil
  then show ?case by (simp split: if_splits)
next
  case (Cons ev evs)
  show ?case
  proof (cases "is_running s")
    case False then show ?thesis by simp
  next
    case True
    show ?thesis
    proof (cases ev)
      case (poll_message m t)
      show ?thesis
      proof (cases "handle_message decode produce m t s")
        case (Next s1)
        with Cons.prems True poll_message
        have "processing_loop decode produce evs s1 = Closed s'" by simp
        from Cons.IH [OF this] handle_message_running [OF Next] True show ?thesis by auto
      next
        case (Raised s1)
        with Cons.prems True poll_message show ?thesis by simp
      qed
    next
      case stop_requested then show ?thesis by simp
    next
      case poll_none
      with Cons.prems True have "processing_loop decode produce evs s = Closed s'" by simp
      from Cons.IH [OF this] True show ?thesis by auto
    next
      case poll_partition_eof
      with Cons.prems True have "processing_loop decode produce evs s = Closed s'" by simp
      from Cons.IH [OF this] True show ?thesis by auto
    next
      case poll_error then show ?thesis by simp
    qed
  qed
qed

lemma loop_invariant:
  "counters_agree s \<Longrightarrow>
   processing_loop decode produce evs s = Running s' \<or>
   processing_loop decode produce evs s = Closed s' \<Longrightarrow> counters_agree s'"
proof (induction evs arbitrary: s)
  case Nil
  then show ?case by (auto split: if_splits)
next
  case (Cons ev evs)
  show ?case
  proof (cases "is_running s")
    case False with Cons.prems show ?thesis by auto
  next
    case True
    show ?thesis
    proof (cases ev)
      case (poll_message m t)
      show ?thesis
      proof (cases "handle_message decode produce m t s")
        case (Next s1)
        from handle_message_counts [OF Next] Cons.prems(1) have "counters_agree s1"
          by (auto simp: counters_agree_def)
        moreover from Cons.prems(2) True poll_message Next
        have "processing_loop decode produce evs s1 = Running s' \<or>
              processing_loop decode produce evs s1 = Closed s'" by simp
        ultimately show ?thesis by (rule Cons.IH)
      next
        case (Raised s1)
        with Cons.prems True poll_message show ?thesis by simp
      qed
    next
      case stop_requested
      have "counters_agree (s\<lparr>is_running := False\<rparr>)"
        using Cons.prems(1) by (simp add: counters_agree_def)
      moreover from stop_requested Cons.prems(2) True
      have "processing_loop decode produce evs (s\<lparr>is_running := False\<rparr>) = Running s' \<or>
            processing_loop decode produce evs (s\<lparr>is_running := False\<rparr>) = Closed s'" by simp
      ultimately show ?thesis by (rule Cons.IH)
    next
      case poll_none
      with Cons.prems True show ?thesis using Cons.IH [of s] by simp
    next
      case poll_partition_eof
      with Cons.prems True show ?thesis using Cons.IH [of s] by simp
    next
      case poll_error with Cons.prems True show ?thesis by auto
    qed
  qed
qed

lemma loop_monotone:
  "processed_count s \<le> processed_count (state_of (processing_loop decode produce evs s)) \<and>
   success_count s \<le> success_count (state_of (processing_loop decode produce evs s)) \<and>
   failure_count s \<le> failure_count (state_of (processing_loop decode produce evs s))"
proof (induction evs arbitrary: s)
  case Nil
  then show ?case by simp
next
  case (Cons ev evs)
  show ?case
  proof (cases "is_running s")
    case False then show ?thesis by simp
  next
    case True
    show ?thesis
    proof (cases ev)
      case (poll_message m t)
      show ?thesis
      proof (cases "handle_message decode produce m t s")
        case (Next s1)
        from handle_message_counts [OF Next] Cons.IH [of s1] True poll_message Next
        show ?thesis by auto
      next
        case (Raised s1)
        from handle_message_Raised_counts [OF Raised] True poll_message Raised
        show ?thesis by simp
      qed
    next
      case stop_requested
      with True Cons.IH [of "s\<lparr>is_running := False\<rparr>"] show ?thesis by simp
    next
      case poll_none
      with True Cons.IH [of s] show ?thesis by simp
    next
      case poll_partition_eof
      with True Cons.IH [of s] show ?thesis by simp
    next
      case poll_error with True show ?thesis by simp
    qed
  qed
qed

lemma handle_message_Next:
  assumes "\<forall>p. produce failure_topic p = None"
  shows "\<exists>s'. handle_message decode produce msg t s = Next s' \<and> is_running s' = is_running s"
  using handle_message_cases [of decode produce msg t s] assms
  by (auto simp: on_exception_cases)

lemma handle_event_simps:
  "handle_event decode produce s (poll_message msg t) =
     after (handle_message decode produce msg t s)"
  "handle_event decode produce s poll_none = s"
  "handle_event decode produce s poll_partition_eof = s"
  by (simp_all add: handle_event_def)

lemma loop_fold:
  assumes "\<forall>p. produce failure_topic p = None"
      and "stop_requested \<notin> set evs" and "poll_error \<notin> set evs"
      and "is_running s"
  shows "processing_loop decode produce evs s =
           Running (foldl (handle_event decode produce) s evs)"
  using assms(2-)
proof (induction evs arbitrary: s)
  case Nil
  then show ?case by simp
next
  case (Cons ev evs)
  show ?case
  proof (cases ev)
    case (poll_message m t)
    from handle_message_Next
      [where produce = produce and decode = decode and msg = m and t = t and s = s,
       OF assms(1)]
    obtain s1 where
      s1: "handle_message decode produce m t s = Next s1" "is_running s1 = is_running s"
      by blast
    with Cons.prems have "processing_loop decode produce evs s1 =
           Running (foldl (handle_event decode produce) s1 evs)"
      by (intro Cons.IH) simp_all
    with s1 Cons.prems(3) poll_message show ?thesis
      by (simp add: handle_event_simps)
  next
    case stop_requested
    with Cons.prems show ?thesis by simp
  next
    case poll_none
    with Cons.prems Cons.IH [of s] show ?thesis by (simp add: handle_event_simps)
  next
    case poll_partition_eof
    with Cons.prems Cons.IH [of s] show ?thesis by (simp add: handle_event_simps)
  next
    case poll_error
    with Cons.prems show ?thesis by simp
  qed
qed

text \<open>
  C7. An exception raised while a message is deserialized, validated or scored is caught:
  when the producer delivers the failure record, the handling of the message ends
  normally, with that record (the wallet address known so far and the message of the
  exception) emitted and the message counted as failed. As long as the producer delivers
  the failure records, the loop handles every message it polls, one after the other,
  each from the state the one before left, and is still running at the end. An exception
  escapes the handling of a message only when the producer raises on the failure record;
  then the loop dies. The loop dies only on such a fault of the producer; it is closed by
  an error of the consumer other than the end of a partition, and only by that or by a
  request to stop.
\<close>

theorem per_message_errors_recovered:
  "(message_error decode msg current_time = Some (address, e) \<and>
    produce failure_topic (failure_payload address e) = None \<longrightarrow>
      handle_message decode produce msg current_time s =
        Next (s\<lparr> produced := produced s @ [(failure_topic, failure_payload address e)],
                 failure_count := failure_count s + 1,
                 processed_count := processed_count s + 1 \<rparr>)) \<and>
   ((\<forall>p. produce failure_topic p = None) \<and> stop_requested \<notin> set evs \<and>
    poll_error \<notin> set evs \<and> is_running s \<longrightarrow>
      processing_loop decode produce evs s =
        Running (foldl (handle_event decode produce) s evs)) \<and>
   (handle_message decode produce msg current_time s = Raised s1 \<longrightarrow>
      (\<exists>p err. produce failure_topic p = Some err) \<and>
      (is_running s \<longrightarrow>
         processing_loop decode produce (poll_message msg current_time # evs) s = Died s1)) \<and>
   (is_running s \<longrightarrow> processing_loop decode produce (poll_error # evs) s = Closed s) \<and>
   (processing_loop decode produce evs s = Died s2 \<longrightarrow>
      (\<exists>p err. produce failure_topic p = Some err)) \<and>
   (processing_loop decode produce evs s = Closed s3 \<longrightarrow>
      \<not> is_running s \<or> stop_requested \<in> set evs \<or> poll_error \<in> set evs)"
proof (intro conjI impI)
  assume "message_error decode msg current_time = Some (address, e) \<and>
    produce failure_topic (failure_payload address e) = None"
  then show "handle_message decode produce msg current_time s =
      Next (s\<lparr> produced := produced s @ [(failure_topic, failure_payload address e)],
               failure_count := failure_count s + 1,
               processed_count := processed_count s + 1 \<rparr>)"
    by (simp add: handle_message_error on_exception_cases)
next
  assume "(\<forall>p. produce failure_topic p = None) \<and> stop_requested \<notin> set evs \<and>
    poll_error \<notin> set evs \<and> is_running s"
  then show "processing_loop decode produce evs s =
        Running (foldl (handle_event decode produce) s evs)"
    by (intro loop_fold) simp_all
next
  assume "handle_message decode produce msg current_time s = Raised s1"
  then show "\<exists>p err. produce failure_topic p = Some err" by (rule handle_message_Raised)
next
  assume "handle_message decode produce msg current_time s = Raised s1" and "is_running s"
  then show "processing_loop decode produce (poll_message msg current_time # evs) s = Died s1"
    by simp
next
  assume "is_running s"
  then show "processing_loop decode produce (poll_error # evs) s = Closed s" by simp
next
  assume "processing_loop decode produce evs s = Died s2"
  then show "\<exists>p err. produce failure_topic p = Some err" by (rule loop_Died)
next
  assume "processing_loop decode produce evs s = Closed s3"
  then show "\<not> is_running s \<or> stop_requested \<in> set evs \<or> poll_error \<in> set evs"
    by (rule loop_Closed)
qed

theorem per_message_errors_recovered_witness:
  "\<exists>s'. processing_loop sample_decode (\<lambda>t p. None)
           [poll_message ''{'' 1800000000, poll_none, poll_message ''sample'' 1800000000,
            poll_partition_eof, poll_message ''['' 1800000000]
           (start_consumer init) = Running s' \<and>
        map fst (produced s') = [failure_topic, success_topic, failure_topic] \<and>
        produced s' ! 0 =
          (failure_topic,
           failure_payload ''unknown'' ''Expecting value: line 1 column 1 (char 0)'') \<and>
        produced s' ! 2 =
          (failure_topic,
           failure_payload ''unknown'' ''Expecting value: line 1 column 1 (char 0)'') \<and>
        get_stats s' = (3, 1, 2, True)"
proof -
  define evs where "evs = [poll_message ''{'' (1800000000::real), poll_none,
    poll_message ''sample'' 1800000000, poll_partition_eof, poll_message ''['' 1800000000]"
  have "\<exists>r. process_wallet 1800000000 (dict_of sample_input) = Inr r \<and>
             map_of (snd r) ''transaction_count'' = Some (PyInt 3)"
    by (simp add: model_defs sample_defs)
  then obtain r where r: "process_wallet 1800000000 (dict_of sample_input) = Inr r"
    "map_of (snd r) ''transaction_count'' = Some (PyInt 3)" by blast
  have h: "(\<forall>p. (\<lambda>t p. None) failure_topic p = (None :: string option)) \<and>
           stop_requested \<notin> set evs \<and> poll_error \<notin> set evs \<and>
           is_running (start_consumer init)"
    by (simp add: evs_def start_consumer_def init_def)
  note c = per_message_errors_recovered
    [where decode = sample_decode and produce = "\<lambda>t p. None" and evs = evs
       and s = "start_consumer init", THEN conjunct2, THEN conjunct1, rule_format]
  from c [OF h] have "processing_loop sample_decode (\<lambda>t p. None) evs (start_consumer init) =
      Running (foldl (handle_event sample_decode (\<lambda>t p. None)) (start_consumer init) evs)" .
  moreover have "map fst (produced (foldl (handle_event sample_decode (\<lambda>t p. None))
                    (start_consumer init) evs)) = [failure_topic, success_topic, failure_topic] \<and>
     produced (foldl (handle_event sample_decode (\<lambda>t p. None)) (start_consumer init) evs) ! 0 =
          (failure_topic,
           failure_payload ''unknown'' ''Expecting value: line 1 column 1 (char 0)'') \<and>
     produced (foldl (handle_event sample_decode (\<lambda>t p. None)) (start_consumer init) evs) ! 2 =
          (failure_topic,
           failure_payload ''unknown'' ''Expecting value: line 1 column 1 (char 0)'') \<and>
     get_stats (foldl (handle_event sample_decode (\<lambda>t p. None)) (start_consumer init) evs) =
       (3, 1, 2, True)"
    using r by (simp add: evs_def handle_event_simps handle_message_def sample_decode_def
        on_exception_cases start_consumer_def init_def get_stats_def Let_def)
  ultimately show ?thesis
    unfolding evs_def
    by (intro exI [of _ "foldl (handle_event sample_decode (\<lambda>t p. None)) (start_consumer init)
          [poll_message ''{'' 1800000000, poll_none, poll_message ''sample'' 1800000000,
           poll_partition_eof, poll_message ''['' 1800000000]"])
       (simp del: processing_loop.simps foldl_Cons)
qed

text \<open>
  The counters start equal (\<open>processed = success + failure\<close>); an iteration that
  handles a message to its end adds one to \<open>processed_count\<close> and to exactly one of
  \<open>success_count\<close> and \<open>failure_count\<close>; so, from any state where the counters
  agreed, they agree whenever the loop is at its \<open>while\<close> test or has been closed. No
  run of the loop decreases a counter.
\<close>

lemma counters_invariant:
  "counters_agree init \<and>
   (handle_message decode produce msg current_time s = Next s1 \<longrightarrow>
      processed_count s1 = processed_count s + 1 \<and>
      ((success_count s1 = success_count s + 1 \<and> failure_count s1 = failure_count s) \<or>
       (failure_count s1 = failure_count s + 1 \<and> success_count s1 = success_count s))) \<and>
   (counters_agree s \<and>
    (processing_loop decode produce evs s = Running s2 \<or>
     processing_loop decode produce evs s = Closed s2) \<longrightarrow> counters_agree s2) \<and>
   processed_count s \<le> processed_count (state_of (processing_loop decode produce evs s)) \<and>
   success_count s \<le> success_count (state_of (processing_loop decode produce evs s)) \<and>
   failure_count s \<le> failure_count (state_of (processing_loop decode produce evs s))"
proof -
  have "counters_agree init" by (simp add: counters_agree_def init_def)
  moreover have "handle_message decode produce msg current_time s = Next s1 \<longrightarrow>
      processed_count s1 = processed_count s + 1 \<and>
      ((success_count s1 = success_count s + 1 \<and> failure_count s1 = failure_count s) \<or>
       (failure_count s1 = failure_count s + 1 \<and> success_count s1 = success_count s))"
    by (rule impI) (rule handle_message_counts)
  moreover have "counters_agree s \<and>
    (processing_loop decode produce evs s = Running s2 \<or>
     processing_loop decode produce evs s = Closed s2) \<longrightarrow> counters_agree s2"
    using loop_invariant by blast
  ultimately show ?thesis using loop_monotone [of s decode produce evs] by blast
qed

text \<open>
  C6. The counters do not agree at every point where the handling of a message has
  ended. When the producer raises on the failure record, the \<open>except\<close> block is left
  before \<open>failure_count\<close> is incremented, \<open>finally\<close> still counts the message as
  processed, and the worker dies: the statistics then show one processed message that is
  neither a success nor a failure.
\<close>

theorem counters_disagree_when_producer_raises:
  "processing_loop sample_decode
     (\<lambda>t p. if t = failure_topic then Some ''Local: Queue full'' else None)
     [poll_message ''{'' 1800000000] (start_consumer init) =
     Died (init\<lparr> is_running := True, processed_count := 1 \<rparr>) \<and>
   get_stats (init\<lparr> is_running := True, processed_count := 1 \<rparr>) = (1, 0, 0, True) \<and>
   \<not> counters_agree (init\<lparr> is_running := True, processed_count := 1 \<rparr>)"
  by (simp add: handle_message_def sample_decode_def on_exception_cases start_consumer_def
      init_def get_stats_def counters_agree_def)

subsection \<open>Holding time\<close>

lemma sum_list_divide:
  "sum_list (map (\<lambda>x. f x / c) xs) = sum_list (map f xs) / (c::real)"
  by (induction xs) (simp_all add: add_divide_distrib)

lemma duration_spec:
  "(let deposit_time = r_timestamp deposit;
        future_withdraws = filter (\<lambda>w. r_timestamp w > deposit_time) ws;
        holding_time_seconds =
          (if future_withdraws \<noteq> [] then
             let withdraw_time = Min (set (map r_timestamp future_withdraws))
             in real_of_int (withdraw_time - deposit_time)
           else now - real_of_int deposit_time)
    in holding_time_seconds / 86400) =
   holding_duration_spec now (map r_timestamp ws) (r_timestamp deposit) / 86400"
proof -
  have s: "set (map r_timestamp (filter (\<lambda>w. r_timestamp w > r_timestamp deposit) ws)) =
           {w \<in> set (map r_timestamp ws). r_timestamp deposit < w}"
    by auto
  have e: "filter (\<lambda>w. r_timestamp w > r_timestamp deposit) ws \<noteq> [] \<longleftrightarrow>
           (\<exists>w \<in> set (map r_timestamp ws). r_timestamp deposit < w)"
    by (auto simp: filter_empty_conv)
  show ?thesis
    unfolding Let_def holding_duration_spec_def s e by simp
qed

lemma holding_time_value:
  assumes "''timestamp'' \<in> df_columns deposits" "''timestamp'' \<in> df_columns withdraws"
  shows "calculate_holding_time now deposits withdraws =
     Inr (if df_rows deposits = [] then PyFloat 0
          else NpFloat (avg_holding_days_spec now (map r_timestamp (df_rows deposits))
                          (map r_timestamp (df_rows withdraws))))"
proof -
  have ne: "df_columns deposits \<noteq> {}" using assms(1) by auto
  show ?thesis
    unfolding calculate_holding_time_def duration_spec
    using assms ne
    by (simp add: df_empty_def avg_holding_days_spec_def sum_list_divide comp_def mult.commute)
qed

text \<open>
  C3. On the deposit and withdraw rows of a table, \<open>_calculate_holding_time\<close> returns
  the average holding time of the specification: for each deposit the earliest withdraw
  strictly after it (or the current time when there is none), the mean over the deposits,
  in days, and 0 without deposits. A withdraw is not used up by a deposit: two deposits
  before the same withdraw are both held until that withdraw.
\<close>

theorem holding_time_refines_spec:
  assumes "''timestamp'' \<in> df_columns deposits" and "''timestamp'' \<in> df_columns withdraws"
  shows "(\<exists>v. calculate_holding_time now deposits withdraws = Inr v \<and>
              num v = avg_holding_days_spec now (map r_timestamp (df_rows deposits))
                        (map r_timestamp (df_rows withdraws))) \<and>
         (d1 < w \<and> d2 < w \<longrightarrow>
            avg_holding_days_spec now [d1, d2] [w] =
              (real_of_int (w - d1) + real_of_int (w - d2)) / 2 / 86400)"
proof -
  have "avg_holding_days_spec now [] ws = 0" for ws
    by (simp add: avg_holding_days_spec_def)
  then have a: "\<exists>v. calculate_holding_time now deposits withdraws = Inr v \<and>
              num v = avg_holding_days_spec now (map r_timestamp (df_rows deposits))
                        (map r_timestamp (df_rows withdraws))"
    using holding_time_value [OF assms, of now] by simp
  have "{x. x = w \<and> d < x} = {w}" if "d < w" for d
    using that by auto
  then have b: "d1 < w \<and> d2 < w \<longrightarrow>
            avg_holding_days_spec now [d1, d2] [w] =
              (real_of_int (w - d1) + real_of_int (w - d2)) / 2 / 86400"
    by (simp add: avg_holding_days_spec_def holding_duration_spec_def)
  from a b show ?thesis by blast
qed


theorem holding_time_refines_spec_witness:
  "calculate_holding_time 1800000000
     (select (preprocess_dex_transactions SAMPLE_WALLET_MESSAGE) ''deposit'')
     (select (preprocess_dex_transactions SAMPLE_WALLET_MESSAGE) ''withdraw'') =
     Inr (NpFloat (1 / 96)) \<and>
   avg_holding_days_spec 1800000000 [1703980900] [1703981800] = 1 / 96 \<and>
   avg_holding_days_spec 1800000000 [0, 86400] [172800] = 3 / 2"
proof -
  let ?D = "select (preprocess_dex_transactions SAMPLE_WALLET_MESSAGE) ''deposit''"
  let ?W = "select (preprocess_dex_transactions SAMPLE_WALLET_MESSAGE) ''withdraw''"
  have c: "''timestamp'' \<in> df_columns ?D" "''timestamp'' \<in> df_columns ?W"
    by (simp_all add: model_defs sample_defs)
  have r: "map r_timestamp (df_rows ?D) = [1703980900]"
          "map r_timestamp (df_rows ?W) = [1703981800]"
    by (simp_all add: model_defs sample_defs)
  have v: "calculate_holding_time 1800000000 ?D ?W = Inr (NpFloat (1 / 96))"
    by (simp add: model_defs sample_defs)
  from holding_time_refines_spec [OF c, of 1800000000 0 172800 86400] v r
  show ?thesis by auto
qed

subsection \<open>Independence of the clock\<close>




subsection \<open>The range of the score\<close>
















text \<open>
  The retention component is only capped from below, so a negative withdraw amount takes
  the score above 660.
\<close>

lemma final_score_above_660:
  "process_wallet 1800000000 negative_withdraw_batch =
     Inr (58561 / 32,
      [(''total_deposit_usd'', PyFloat 10000), (''total_withdraw_usd'', PyFloat (- 100000)),
       (''num_deposits'', PyInt 1), (''num_withdraws'', PyInt 1),
       (''withdraw_ratio'', PyFloat (- 10)), (''avg_hold_time_days'', PyFloat (1 / 96)),
       (''account_age_days'', PyFloat (1 / 96)), (''unique_pools'', PyInt 1),
       (''total_swap_volume'', PyFloat 0), (''num_swaps'', PyInt 0),
       (''unique_pools_swapped'', PyInt 0), (''avg_swap_size'', PyFloat 0),
       (''token_diversity'', PyInt 0), (''transaction_count'', PyInt 2)]) \<and>
   (660 :: real) < 58561 / 32"
  by (simp add: model_defs sample_defs)

text \<open>
  When every amount of the batch is an integer, the deposits are added in 64 bits: two
  deposits of 5000000000000000000 USD add up to \<open>-8446744073709551616\<close>, and the
  score is far below 0 although no amount is negative and every deposit has a later
  withdraw.
\<close>

lemma final_score_integer_wrap:
  "process_wallet 1800000000 integer_deposits_batch =
     Inr (- (608165573307087116227 / 4000),
      [(''total_deposit_usd'', PyInt (- 8446744073709551616)),
       (''total_withdraw_usd'', PyInt 1), (''num_deposits'', PyInt 2),
       (''num_withdraws'', PyInt 1), (''withdraw_ratio'', PyFloat 0),
       (''avg_hold_time_days'', PyFloat (1 / 96)),
       (''account_age_days'', PyFloat (1 / 96)),
       (''unique_pools'', PyInt 1), (''total_swap_volume'', PyFloat 0),
       (''num_swaps'', PyInt 0), (''unique_pools_swapped'', PyInt 0),
       (''avg_swap_size'', PyFloat 0), (''token_diversity'', PyInt 0),
       (''transaction_count'', PyInt 3)]) \<and>
   df_amount_dtype (preprocess_dex_transactions integer_deposits_batch) = int64"
  by (simp add: model_defs sample_defs)

end
